theory Spec2Isabelle
  imports Main
begin

section \<open>The Dashboard reconciler of operator/controllers/dashboard_controller.go\<close>

text \<open>
  The reconciler is one Go function, \<open>Reconcile\<close>, with two helpers that talk to the
  Instana API over HTTP. Its effects are reads and writes of the Kubernetes object store and
  HTTP calls. The model threads a \<open>world\<close> (the store and the history of calls made so
  far) through the function; what the collaborators answer in one execution is given by an
  environment \<open>env\<close>. A nil dereference of the Go code is the outcome \<open>Panicked\<close>.
  Logging, the context argument and the store's resource versions are left out: no branch of
  the code depends on them.
\<close>

subsection \<open>Data\<close>

type_synonym NamespacedName = "string \<times> string"

text \<open>
  Modelled from the spec: the type \<open>customv1.Dashboard\<close> of api/v1 is not among the
  sources. The fields are those the controller reads or writes: the object's identity,
  \<open>ObjectMeta.DeletionTimestamp\<close>, \<open>ObjectMeta.Finalizers\<close>, \<open>Spec.Config\<close>,
  \<open>Status.DashboardId\<close> and \<open>Status.DashboardTitle\<close>.
\<close>

record Dashboard =
  Namespace :: string
  Name :: string
  DeletionTimestamp :: "nat option"
  Finalizers :: "string list"
  Config :: string
  DashboardId :: string
  DashboardTitle :: string

record InstanaApiResponse =
  Id_resp :: string
  Title_resp :: string

record InstanaApiConfig =
  ApiToken :: string
  BaseUrl :: string

record http_request =
  Method :: string
  Url :: string
  Header :: "(string \<times> string) list"
  Body :: "string option"

record http_response =
  StatusLine :: string
  BodyBytes :: string

text \<open>
  What \<open>client.Do\<close> hands back: no response at all (\<open>resp\<close> is nil, the error is
  non-nil), or a response. The code only logs the error value and never looks at the status
  line, so a response that carries an error status is still a \<open>Response\<close>.
  \<open>BodyBytes\<close> is what \<open>ioutil.ReadAll\<close> returned, whether or not it also reported
  a read error (which is logged only).
\<close>

datatype http_outcome = No_response | Response http_response

datatype api_error = NotFound | Conflict | ServerError

datatype outcome = Returned "api_error option" | Panicked

datatype event =
  Call_Do http_request
  | Call_StatusUpdate Dashboard
  | Call_Update Dashboard

record world =
  configmaps :: "(NamespacedName \<times> (string \<times> string) list) list"
  dashboards :: "Dashboard list"
  trace :: "event list"

text \<open>
  The answers of the collaborators during one execution of \<open>Reconcile\<close>: a fault of the
  store on each of its four calls (\<open>None\<close>: the store answers), whether
  \<open>http.NewRequest\<close> reports an error for a method and URL, the answer of
  \<open>client.Do\<close>, and what \<open>json.Unmarshal\<close> leaves in a zero \<open>InstanaApiResponse\<close>
  for a given body (its error is discarded by the code).
\<close>

record env =
  cm_get_fault :: "api_error option"
  get_fault :: "api_error option"
  new_request_err :: "string \<Rightarrow> string \<Rightarrow> bool"
  client_do :: "http_request \<Rightarrow> http_outcome"
  json_unmarshal :: "string \<Rightarrow> InstanaApiResponse"
  status_update_fault :: "api_error option"
  update_fault :: "api_error option"

subsection \<open>The object store\<close>

definition ident :: "Dashboard \<Rightarrow> NamespacedName" where
  "ident d = (Namespace d, Name d)"

definition store_get :: "Dashboard list \<Rightarrow> NamespacedName \<Rightarrow> Dashboard option" where
  "store_get ds k = find (\<lambda>d. ident d = k) ds"

text \<open>\<open>r.Get\<close> for a Dashboard: a fault, not-found, or the stored object.\<close>

definition Get :: "api_error option \<Rightarrow> world \<Rightarrow> NamespacedName \<Rightarrow> api_error + Dashboard" where
  "Get fault w k =
     (case fault of
        Some e \<Rightarrow> Inl e
      | None \<Rightarrow> (case store_get (dashboards w) k of
                   None \<Rightarrow> Inl NotFound
                 | Some d \<Rightarrow> Inr d))"

text \<open>\<open>r.Client.Get\<close> for a ConfigMap; the result is its \<open>Data\<close>.\<close>

definition GetConfigMap ::
  "api_error option \<Rightarrow> world \<Rightarrow> NamespacedName \<Rightarrow> api_error + (string \<times> string) list" where
  "GetConfigMap fault w k =
     (case fault of
        Some e \<Rightarrow> Inl e
      | None \<Rightarrow> (case map_of (configmaps w) k of
                   None \<Rightarrow> Inl NotFound
                 | Some data \<Rightarrow> Inr data))"

text \<open>Indexing a Go map: a missing key (and any key of a nil map) gives the empty string.\<close>

definition data_lookup :: "(string \<times> string) list \<Rightarrow> string \<Rightarrow> string" where
  "data_lookup m k = (case map_of m k of None \<Rightarrow> [] | Some v \<Rightarrow> v)"

definition IgnoreNotFound :: "api_error \<Rightarrow> api_error option" where
  "IgnoreNotFound err = (if err = NotFound then None else Some err)"

text \<open>
  The store keeps one object per identity: a write replaces whatever it holds under the
  identity of the written object.

  \<open>r.Status().Update\<close>: the call is recorded; unless the store faults or no longer has
  the object, the status of the stored object becomes that of the given one, and the caller's
  object is replaced by the stored result.
\<close>

definition store_put :: "Dashboard \<Rightarrow> Dashboard list \<Rightarrow> Dashboard list" where
  "store_put p ds = map (\<lambda>x. if ident x = ident p then p else x) ds"

definition store_remove :: "NamespacedName \<Rightarrow> Dashboard list \<Rightarrow> Dashboard list" where
  "store_remove k ds = filter (\<lambda>x. ident x \<noteq> k) ds"

definition StatusUpdate ::
  "api_error option \<Rightarrow> Dashboard \<Rightarrow> world \<Rightarrow> (api_error + Dashboard) \<times> world" where
  "StatusUpdate fault d w =
     (let w1 = w\<lparr>trace := trace w @ [Call_StatusUpdate d]\<rparr> in
      case fault of
        Some e \<Rightarrow> (Inl e, w1)
      | None \<Rightarrow>
          (case store_get (dashboards w) (ident d) of
             None \<Rightarrow> (Inl NotFound, w1)
           | Some p \<Rightarrow>
               let p1 = p\<lparr>DashboardId := DashboardId d, DashboardTitle := DashboardTitle d\<rparr>
               in (Inr p1, w1\<lparr>dashboards := store_put p1 (dashboards w)\<rparr>)))"

text \<open>
  \<open>r.Update\<close>: the call is recorded; unless the store faults or no longer has the object,
  the metadata and spec of the stored object become those of the given one (the status is
  written through \<open>Status()\<close> only). An object whose deletion was requested and whose last
  finalizer is gone is removed by the store.
\<close>

definition Update ::
  "api_error option \<Rightarrow> Dashboard \<Rightarrow> world \<Rightarrow> (api_error + Dashboard) \<times> world" where
  "Update fault d w =
     (let w1 = w\<lparr>trace := trace w @ [Call_Update d]\<rparr> in
      case fault of
        Some e \<Rightarrow> (Inl e, w1)
      | None \<Rightarrow>
          (case store_get (dashboards w) (ident d) of
             None \<Rightarrow> (Inl NotFound, w1)
           | Some p \<Rightarrow>
               let p1 = p\<lparr>Finalizers := Finalizers d, Config := Config d\<rparr>
               in (Inr p1,
                   w1\<lparr>dashboards :=
                        (if DeletionTimestamp p1 \<noteq> None \<and> Finalizers p1 = []
                         then store_remove (ident d) (dashboards w)
                         else store_put p1 (dashboards w))\<rparr>)))"

subsection \<open>Finalizers (controllerutil)\<close>

definition finalizerName :: string where
  "finalizerName = ''dashboard.custom.instana.io/finalizer''"

definition AddFinalizer :: "string list \<Rightarrow> string \<Rightarrow> string list" where
  "AddFinalizer f finalizer = (if finalizer \<in> set f then f else f @ [finalizer])"

definition RemoveFinalizer :: "string list \<Rightarrow> string \<Rightarrow> string list" where
  "RemoveFinalizer f finalizer = filter (\<lambda>e. e \<noteq> finalizer) f"

subsection \<open>The HTTP helpers\<close>

text \<open>
  Both helpers return \<open>None\<close> where the Go code dereferences nil: \<open>req2.Header.Add\<close>
  after a failed \<open>http.NewRequest\<close>, and \<open>defer resp.Body.Close()\<close> when
  \<open>client.Do\<close> gave no response. Otherwise they return what \<open>json.Unmarshal\<close> made
  of the body, whatever the status of the response.
\<close>

definition request_headers :: "InstanaApiConfig \<Rightarrow> (string \<times> string) list" where
  "request_headers apiConfig =
     [(''Accept'', ''application/json''),
      (''Content-Type'', ''application/json''),
      (''authorization'', ''apiToken '' @ ApiToken apiConfig)]"

definition createDashboardInInstana ::
  "env \<Rightarrow> Dashboard \<Rightarrow> InstanaApiConfig \<Rightarrow> world \<Rightarrow> InstanaApiResponse option \<times> world" where
  "createDashboardInInstana e dashboard apiConfig w =
     (let instanaUrl = BaseUrl apiConfig @ ''/api/custom-dashboard'' in
      if new_request_err e ''POST'' instanaUrl then (None, w)
      else
        let req2 = \<lparr>Method = ''POST'', Url = instanaUrl,
                    Header = request_headers apiConfig, Body = Some (Config dashboard)\<rparr>;
            w1 = w\<lparr>trace := trace w @ [Call_Do req2]\<rparr>
        in case client_do e req2 of
             No_response \<Rightarrow> (None, w1)
           | Response resp \<Rightarrow> (Some (json_unmarshal e (BodyBytes resp)), w1))"

definition deleteDashboardInInstana ::
  "env \<Rightarrow> Dashboard \<Rightarrow> InstanaApiConfig \<Rightarrow> world \<Rightarrow> InstanaApiResponse option \<times> world" where
  "deleteDashboardInInstana e dashboard apiConfig w =
     (let instanaUrl = BaseUrl apiConfig @ ''/api/custom-dashboard/'' @ DashboardId dashboard in
      if new_request_err e ''DELETE'' instanaUrl then (None, w)
      else
        let req2 = \<lparr>Method = ''DELETE'', Url = instanaUrl,
                    Header = request_headers apiConfig, Body = None\<rparr>;
            w1 = w\<lparr>trace := trace w @ [Call_Do req2]\<rparr>
        in case client_do e req2 of
             No_response \<Rightarrow> (None, w1)
           | Response resp \<Rightarrow> (Some (json_unmarshal e (BodyBytes resp)), w1))"

subsection \<open>Reconcile\<close>

text \<open>Lines 68 to 75: the API configuration, read from a ConfigMap; a failed read is ignored.\<close>

definition load_config :: "env \<Rightarrow> world \<Rightarrow> InstanaApiConfig" where
  "load_config e w =
     (let cm = (case GetConfigMap (cm_get_fault e) w
                       (''default'', ''instana-custom-dashboard-config'') of
                  Inl _ \<Rightarrow> []
                | Inr data \<Rightarrow> data)
      in \<lparr>ApiToken = data_lookup cm ''instana-api-token'',
          BaseUrl = data_lookup cm ''instana-base-url''\<rparr>)"

text \<open>
  Lines 110 to 117: create the remote dashboard, copy the response into the status, write the
  status. \<open>Inl\<close> is an execution that ends here, \<open>Inr\<close> carries the object on to the
  next lines.
\<close>

definition create_and_record ::
  "env \<Rightarrow> Dashboard \<Rightarrow> InstanaApiConfig \<Rightarrow> world \<Rightarrow> (outcome + Dashboard) \<times> world" where
  "create_and_record e dashboard instanaApiConfig w =
     (case createDashboardInInstana e dashboard instanaApiConfig w of
        (None, w1) \<Rightarrow> (Inl Panicked, w1)
      | (Some apiResponse, w1) \<Rightarrow>
          let dashboard1 = dashboard\<lparr>DashboardId := Id_resp apiResponse,
                                     DashboardTitle := Title_resp apiResponse\<rparr>
          in (case StatusUpdate (status_update_fault e) dashboard1 w1 of
                (Inl err, w2) \<Rightarrow> (Inl (Returned (Some err)), w2)
              | (Inr dashboard2, w2) \<Rightarrow> (Inr dashboard2, w2)))"

text \<open>
  Lines 119 to 126: add the finalizer and write the object. The read
  \<open>GetFinalizers()[0]\<close> of line 120 is in range, the list holding the finalizer by then.
\<close>

definition add_finalizer_and_update :: "env \<Rightarrow> Dashboard \<Rightarrow> world \<Rightarrow> outcome \<times> world" where
  "add_finalizer_and_update e dashboard w =
     (let dashboard1 = dashboard\<lparr>Finalizers := AddFinalizer (Finalizers dashboard) finalizerName\<rparr>
      in case Update (update_fault e) dashboard1 w of
           (Inl err, w1) \<Rightarrow> (Returned (Some err), w1)
         | (Inr _, w1) \<Rightarrow> (Returned None, w1))"

text \<open>Lines 89 to 100: the deletion branch.\<close>

definition delete_and_release ::
  "env \<Rightarrow> Dashboard \<Rightarrow> InstanaApiConfig \<Rightarrow> world \<Rightarrow> outcome \<times> world" where
  "delete_and_release e dashboard instanaApiConfig w =
     (case deleteDashboardInInstana e dashboard instanaApiConfig w of
        (None, w1) \<Rightarrow> (Panicked, w1)
      | (Some _, w1) \<Rightarrow>
          let dashboard1 =
                dashboard\<lparr>Finalizers := RemoveFinalizer (Finalizers dashboard) finalizerName\<rparr>
          in (case Update (update_fault e) dashboard1 w1 of
                (Inl err, w2) \<Rightarrow> (Returned (Some err), w2)
              | (Inr _, w2) \<Rightarrow> (Returned None, w2)))"

definition Reconcile :: "env \<Rightarrow> NamespacedName \<Rightarrow> world \<Rightarrow> outcome \<times> world" where
  "Reconcile e req w =
     (let instanaApiConfig = load_config e w in
      case Get (get_fault e) w req of
        Inl err \<Rightarrow> (Returned (IgnoreNotFound err), w)
      | Inr dashboard \<Rightarrow>
          if DeletionTimestamp dashboard \<noteq> None then
            delete_and_release e dashboard instanaApiConfig w
          else if DashboardId dashboard \<noteq> [] then (Returned None, w)
          else
            (case create_and_record e dashboard instanaApiConfig w of
               (Inl out, w1) \<Rightarrow> (out, w1)
             | (Inr dashboard1, w1) \<Rightarrow> add_finalizer_and_update e dashboard1 w1))"

subsection \<open>Repeated and interrupted executions\<close>

text \<open>One execution after another on the same identity, each with its own environment.\<close>

fun reconciles :: "env list \<Rightarrow> NamespacedName \<Rightarrow> world \<Rightarrow> outcome list \<times> world" where
  "reconciles [] req w = ([], w)"
| "reconciles (e # es) req w =
     (case Reconcile e req w of
        (out, w1) \<Rightarrow> (case reconciles es req w1 of (outs, w2) \<Rightarrow> (out # outs, w2)))"

text \<open>
  An execution whose process dies between the status write of line 114 and the metadata
  write of line 121: the world at that point, when the execution reaches it.
\<close>

definition crash_between_writes :: "env \<Rightarrow> NamespacedName \<Rightarrow> world \<Rightarrow> world option" where
  "crash_between_writes e req w =
     (case Get (get_fault e) w req of
        Inl _ \<Rightarrow> None
      | Inr dashboard \<Rightarrow>
          if DeletionTimestamp dashboard \<noteq> None then None
          else if DashboardId dashboard \<noteq> [] then None
          else (case create_and_record e dashboard (load_config e w) w of
                  (Inl _, _) \<Rightarrow> None
                | (Inr _, w1) \<Rightarrow> Some w1))"

datatype attempt = Completes env | Crashes env

fun run_attempts :: "attempt list \<Rightarrow> NamespacedName \<Rightarrow> world \<Rightarrow> world" where
  "run_attempts [] req w = w"
| "run_attempts (Completes e # ats) req w = run_attempts ats req (snd (Reconcile e req w))"
| "run_attempts (Crashes e # ats) req w =
     run_attempts ats req
       (case crash_between_writes e req w of
          Some w1 \<Rightarrow> w1
        | None \<Rightarrow> snd (Reconcile e req w))"

subsection \<open>Reading the history of calls\<close>

definition new_events :: "world \<Rightarrow> world \<Rightarrow> event list" where
  "new_events w w' = drop (length (trace w)) (trace w')"

fun is_create_call :: "event \<Rightarrow> bool" where
  "is_create_call (Call_Do r) = (Method r = ''POST'')"
| "is_create_call _ = False"

fun is_delete_call :: "event \<Rightarrow> bool" where
  "is_delete_call (Call_Do r) = (Method r = ''DELETE'')"
| "is_delete_call _ = False"

fun written :: "event \<Rightarrow> Dashboard option" where
  "written (Call_Do _) = None"
| "written (Call_StatusUpdate d) = Some d"
| "written (Call_Update d) = Some d"

definition create_calls :: "world \<Rightarrow> nat" where
  "create_calls w = length (filter is_create_call (trace w))"

text \<open>The store holds no object for the identity, or one whose \<open>DashboardId\<close> is set.\<close>

definition absent_or_recorded :: "NamespacedName \<Rightarrow> world \<Rightarrow> bool" where
  "absent_or_recorded req w =
     (case store_get (dashboards w) req of None \<Rightarrow> True | Some d \<Rightarrow> DashboardId d \<noteq> [])"

text \<open>Two objects that differ at most in their status fields and their finalizers.\<close>

definition same_outside_status_and_finalizers :: "Dashboard \<Rightarrow> Dashboard \<Rightarrow> bool" where
  "same_outside_status_and_finalizers d d' \<longleftrightarrow>
     d'\<lparr>Finalizers := Finalizers d, DashboardId := DashboardId d,
        DashboardTitle := DashboardTitle d\<rparr> = d"

text \<open>The requests the two helpers build.\<close>

definition create_request :: "InstanaApiConfig \<Rightarrow> Dashboard \<Rightarrow> http_request" where
  "create_request apiConfig d =
     \<lparr>Method = ''POST'', Url = BaseUrl apiConfig @ ''/api/custom-dashboard'',
      Header = request_headers apiConfig, Body = Some (Config d)\<rparr>"

definition delete_request :: "InstanaApiConfig \<Rightarrow> Dashboard \<Rightarrow> http_request" where
  "delete_request apiConfig d =
     \<lparr>Method = ''DELETE'',
      Url = BaseUrl apiConfig @ ''/api/custom-dashboard/'' @ DashboardId d,
      Header = request_headers apiConfig, Body = None\<rparr>"

subsection \<open>Sample inputs\<close>

definition sample_key :: NamespacedName where
  "sample_key = (''default'', ''board'')"

definition sample_pending :: Dashboard where
  \<open>sample_pending =
     \<lparr>Namespace = ''default'', Name = ''board'', DeletionTimestamp = None, Finalizers = [],
      Config = ''{"title":"X"}'', DashboardId = [], DashboardTitle = []\<rparr>\<close>

definition sample_provisioned :: Dashboard where
  "sample_provisioned =
     sample_pending\<lparr>Finalizers := [finalizerName], DashboardId := ''d1'',
                    DashboardTitle := ''X''\<rparr>"

definition sample_deleting :: Dashboard where
  "sample_deleting = sample_provisioned\<lparr>DeletionTimestamp := Some 1\<rparr>"

text \<open>
  A resource whose remote create was answered without an id: the create branch wrote the empty
  id and added the finalizer all the same; its deletion was requested afterwards.
\<close>

definition sample_deleting_unprovisioned :: Dashboard where
  "sample_deleting_unprovisioned =
     sample_pending\<lparr>Finalizers := [finalizerName], DeletionTimestamp := Some 1\<rparr>"

definition sample_world :: "Dashboard list \<Rightarrow> world" where
  "sample_world ds =
     \<lparr>configmaps = [((''default'', ''instana-custom-dashboard-config''),
                     [(''instana-api-token'', ''tok''), (''instana-base-url'', ''http://i'')])],
      dashboards = ds, trace = []\<rparr>"

text \<open>
  The world an execution leaves when it dies after the status write, the remote service
  having answered \<open>{"id":"d1","title":"X"}\<close> for \<open>sample_pending\<close>.
\<close>

definition sample_crashed :: world where
  "sample_crashed =
     (sample_world [sample_pending\<lparr>DashboardId := ''d1'', DashboardTitle := ''X''\<rparr>])
       \<lparr>trace :=
          [Call_Do (create_request
                     \<lparr>ApiToken = ''tok'', BaseUrl = ''http://i''\<rparr> sample_pending),
           Call_StatusUpdate
             (sample_pending\<lparr>DashboardId := ''d1'', DashboardTitle := ''X''\<rparr>)]\<rparr>"

definition sample_config :: InstanaApiConfig where
  "sample_config = \<lparr>ApiToken = ''tok'', BaseUrl = ''http://i''\<rparr>"

definition sample_unmarshal :: "string \<Rightarrow> InstanaApiResponse" where
  \<open>sample_unmarshal b =
     (if b = ''{"id":"d1","title":"X"}'' then \<lparr>Id_resp = ''d1'', Title_resp = ''X''\<rparr>
      else \<lparr>Id_resp = [], Title_resp = []\<rparr>)\<close>

definition answer_created :: http_outcome where
  \<open>answer_created =
     Response \<lparr>StatusLine = ''200 OK'', BodyBytes = ''{"id":"d1","title":"X"}''\<rparr>\<close>

definition answer_deleted :: http_outcome where
  "answer_deleted = Response \<lparr>StatusLine = ''204 No Content'', BodyBytes = []\<rparr>"

definition answer_unavailable :: http_outcome where
  "answer_unavailable = Response \<lparr>StatusLine = ''503 Service Unavailable'', BodyBytes = []\<rparr>"

definition sample_env :: "http_outcome \<Rightarrow> env" where
  "sample_env answer =
     \<lparr>cm_get_fault = None, get_fault = None, new_request_err = (\<lambda>_ _. False),
      client_do = (\<lambda>_. answer), json_unmarshal = sample_unmarshal,
      status_update_fault = None, update_fault = None\<rparr>"

section \<open>Facts about the store and the helpers\<close>

subsection \<open>The store\<close>

lemma store_get_ident: "store_get ds k = Some d \<Longrightarrow> ident d = k"
  by (auto simp: store_get_def find_Some_iff)

lemma store_get_put:
  "store_get ds (ident p) = Some q \<Longrightarrow> store_get (store_put p ds) (ident p) = Some p"
  by (induction ds) (auto simp: store_get_def store_put_def)

lemma store_get_remove: "store_get (store_remove k ds) k = None"
  by (induction ds) (auto simp: store_get_def store_remove_def)

lemma store_get_put_eq:
  "store_get (store_put p ds) k =
     (if k = ident p \<and> store_get ds k \<noteq> None then Some p else store_get ds k)"
  by (induction ds) (auto simp: store_get_def store_put_def)

lemma store_get_remove_eq:
  "store_get (store_remove k ds) k' = (if k' = k then None else store_get ds k')"
  by (induction ds) (auto simp: store_get_def store_remove_def)

lemma store_get_put_put:
  assumes "store_get ds k = Some d" and "ident d1 = ident d" and "ident d2 = ident d"
  shows "store_get (store_put d2 (store_put d1 ds)) k = Some d2"
proof -
  have k: "ident d = k" using assms(1) by (rule store_get_ident)
  have "store_get (store_put d1 ds) (ident d1) = Some d1"
    using store_get_put [of ds d1 d] assms(1) assms(2) k by simp
  then have "store_get (store_put d2 (store_put d1 ds)) (ident d2) = Some d2"
    using store_get_put [of "store_put d1 ds" d2 d1] assms(2) assms(3) by simp
  then show ?thesis using assms(3) k by simp
qed

lemma ident_status [simp]:
  "ident (d\<lparr>DashboardId := a\<rparr>) = ident d"
  "ident (d\<lparr>DashboardTitle := b\<rparr>) = ident d"
  "ident (d\<lparr>Finalizers := c\<rparr>) = ident d"
  "ident (d\<lparr>Config := c'\<rparr>) = ident d"
  by (simp_all add: ident_def)

subsection \<open>Reading the history\<close>

lemma new_events_same [simp]: "new_events w w = []"
  by (simp add: new_events_def)

lemma create_calls_trace [simp]:
  "create_calls (w\<lparr>trace := t\<rparr>) = length (filter is_create_call t)"
  "create_calls (w\<lparr>dashboards := ds\<rparr>) = create_calls w"
  by (simp_all add: create_calls_def)

lemma Method_requests [simp]:
  "Method (create_request cfg d) = ''POST''"
  "Method (delete_request cfg d) = ''DELETE''"
  by (simp_all add: create_request_def delete_request_def)

lemma same_outside_refl [simp]: "same_outside_status_and_finalizers d d"
  by (simp add: same_outside_status_and_finalizers_def)

lemma same_outside_updates [simp]:
  "same_outside_status_and_finalizers d (d\<lparr>DashboardId := a, DashboardTitle := b\<rparr>)"
  "same_outside_status_and_finalizers d (d\<lparr>Finalizers := c\<rparr>)"
  "same_outside_status_and_finalizers d
     (d\<lparr>DashboardId := a, DashboardTitle := b, Finalizers := c\<rparr>)"
  by (simp_all add: same_outside_status_and_finalizers_def)

lemma finalizerName_in_AddFinalizer: "finalizerName \<in> set (AddFinalizer f finalizerName)"
  by (simp add: AddFinalizer_def)

lemma finalizerName_notin_RemoveFinalizer: "finalizerName \<notin> set (RemoveFinalizer f finalizerName)"
  by (simp add: RemoveFinalizer_def)

subsection \<open>The helpers and the two store writes, case by case\<close>

lemma createDashboardInInstana_cases:
  "createDashboardInInstana e d cfg w =
     (if new_request_err e ''POST'' (BaseUrl cfg @ ''/api/custom-dashboard'') then (None, w)
      else case client_do e (create_request cfg d) of
             No_response \<Rightarrow> (None, w\<lparr>trace := trace w @ [Call_Do (create_request cfg d)]\<rparr>)
           | Response resp \<Rightarrow>
               (Some (json_unmarshal e (BodyBytes resp)),
                w\<lparr>trace := trace w @ [Call_Do (create_request cfg d)]\<rparr>))"
  by (simp add: createDashboardInInstana_def create_request_def Let_def split: http_outcome.split)

lemma deleteDashboardInInstana_cases:
  "deleteDashboardInInstana e d cfg w =
     (if new_request_err e ''DELETE'' (BaseUrl cfg @ ''/api/custom-dashboard/'' @ DashboardId d)
      then (None, w)
      else case client_do e (delete_request cfg d) of
             No_response \<Rightarrow> (None, w\<lparr>trace := trace w @ [Call_Do (delete_request cfg d)]\<rparr>)
           | Response resp \<Rightarrow>
               (Some (json_unmarshal e (BodyBytes resp)),
                w\<lparr>trace := trace w @ [Call_Do (delete_request cfg d)]\<rparr>))"
  by (simp add: deleteDashboardInInstana_def delete_request_def Let_def split: http_outcome.split)

lemma StatusUpdate_fault: "StatusUpdate (Some err) d w = (Inl err, w\<lparr>trace := trace w @ [Call_StatusUpdate d]\<rparr>)"
  by (simp add: StatusUpdate_def)

lemma StatusUpdate_ok:
  "store_get (dashboards w) (ident d) = Some p \<Longrightarrow>
   StatusUpdate None d w =
     (Inr (p\<lparr>DashboardId := DashboardId d, DashboardTitle := DashboardTitle d\<rparr>),
      w\<lparr>trace := trace w @ [Call_StatusUpdate d],
        dashboards := store_put (p\<lparr>DashboardId := DashboardId d, DashboardTitle := DashboardTitle d\<rparr>) (dashboards w)\<rparr>)"
  by (simp add: StatusUpdate_def Let_def)

lemma Update_fault: "Update (Some err) d w = (Inl err, w\<lparr>trace := trace w @ [Call_Update d]\<rparr>)"
  by (simp add: Update_def)

lemma Update_ok:
  "store_get (dashboards w) (ident d) = Some p \<Longrightarrow>
   Update None d w =
     (Inr (p\<lparr>Finalizers := Finalizers d, Config := Config d\<rparr>),
      w\<lparr>trace := trace w @ [Call_Update d],
        dashboards :=
          (if DeletionTimestamp p \<noteq> None \<and> Finalizers d = []
           then store_remove (ident d) (dashboards w)
           else store_put (p\<lparr>Finalizers := Finalizers d, Config := Config d\<rparr>) (dashboards w))\<rparr>)"
  by (simp add: Update_def Let_def)

subsection \<open>The branches of Reconcile\<close>

text \<open>
  Each branch as one equation over everything the collaborators can answer: the outcome, the
  calls added to the history, and the store afterwards.
\<close>

lemma Reconcile_found:
  "Get (get_fault e) w req = Inr d \<Longrightarrow>
   Reconcile e req w =
     (if DeletionTimestamp d \<noteq> None then delete_and_release e d (load_config e w) w
      else if DashboardId d \<noteq> [] then (Returned None, w)
      else (case create_and_record e d (load_config e w) w of
              (Inl out, w1) \<Rightarrow> (out, w1)
            | (Inr d1, w1) \<Rightarrow> add_finalizer_and_update e d1 w1))"
  by (simp add: Reconcile_def)

lemma Get_stored:
  "get_fault e = None \<Longrightarrow> store_get (dashboards w) req = Some d \<Longrightarrow>
   Get (get_fault e) w req = Inr d"
  by (simp add: Get_def)

lemma Reconcile_not_loaded:
  assumes "get_fault e \<noteq> None \<or> store_get (dashboards w) req = None"
  shows "snd (Reconcile e req w) = w"
  using assms by (auto simp: Reconcile_def Get_def split: option.split)

lemma Reconcile_provisioned:
  assumes "store_get (dashboards w) req = Some d" and "DashboardId d \<noteq> []"
    and "DeletionTimestamp d = None" and "get_fault e = None"
  shows "Reconcile e req w = (Returned None, w)"
  using assms by (simp add: Reconcile_def Get_def)

lemma create_and_record_response:
  assumes "store_get (dashboards w) (ident d) = Some d"
    and "\<not> new_request_err e ''POST'' (BaseUrl cfg @ ''/api/custom-dashboard'')"
    and "client_do e (create_request cfg d) = Response resp"
    and "d1 = d\<lparr>DashboardId := Id_resp (json_unmarshal e (BodyBytes resp)),
                 DashboardTitle := Title_resp (json_unmarshal e (BodyBytes resp))\<rparr>"
    and "w1 = w\<lparr>trace := trace w @ [Call_Do (create_request cfg d), Call_StatusUpdate d1]\<rparr>"
  shows "create_and_record e d cfg w =
     (case status_update_fault e of
        Some err \<Rightarrow> (Inl (Returned (Some err)), w1)
      | None \<Rightarrow> (Inr d1, w1\<lparr>dashboards := store_put d1 (dashboards w)\<rparr>))"
  using assms
  by (simp add: create_and_record_def createDashboardInInstana_cases StatusUpdate_fault
      StatusUpdate_ok split: option.split)

lemma add_finalizer_and_update_stored:
  assumes "store_get (dashboards w) (ident d) = Some d"
    and "DeletionTimestamp d = None"
    and "d2 = d\<lparr>Finalizers := AddFinalizer (Finalizers d) finalizerName\<rparr>"
    and "w1 = w\<lparr>trace := trace w @ [Call_Update d2]\<rparr>"
  shows "add_finalizer_and_update e d w =
     (case update_fault e of
        Some err \<Rightarrow> (Returned (Some err), w1)
      | None \<Rightarrow> (Returned None, w1\<lparr>dashboards := store_put d2 (dashboards w)\<rparr>))"
  using assms
  by (simp add: add_finalizer_and_update_def Update_fault Update_ok split: option.split)

lemma delete_and_release_response:
  assumes "store_get (dashboards w) (ident d) = Some d"
    and "\<not> new_request_err e ''DELETE'' (BaseUrl cfg @ ''/api/custom-dashboard/'' @ DashboardId d)"
    and "client_do e (delete_request cfg d) = Response resp"
    and "d1 = d\<lparr>Finalizers := RemoveFinalizer (Finalizers d) finalizerName\<rparr>"
    and "w1 = w\<lparr>trace := trace w @ [Call_Do (delete_request cfg d), Call_Update d1]\<rparr>"
  shows "delete_and_release e d cfg w =
     (case update_fault e of
        Some err \<Rightarrow> (Returned (Some err), w1)
      | None \<Rightarrow>
          (Returned None,
           w1\<lparr>dashboards :=
                (if DeletionTimestamp d \<noteq> None \<and> Finalizers d1 = []
                 then store_remove (ident d) (dashboards w)
                 else store_put d1 (dashboards w))\<rparr>))"
  using assms
  by (simp add: delete_and_release_def deleteDashboardInInstana_cases Update_fault Update_ok
      split: option.split)

lemma Reconcile_create_response:
  assumes "store_get (dashboards w) req = Some d"
    and "DeletionTimestamp d = None" and "DashboardId d = []"
    and "get_fault e = None"
    and "\<not> new_request_err e ''POST'' (BaseUrl (load_config e w) @ ''/api/custom-dashboard'')"
    and "client_do e (create_request (load_config e w) d) = Response resp"
    and "d1 = d\<lparr>DashboardId := Id_resp (json_unmarshal e (BodyBytes resp)),
                 DashboardTitle := Title_resp (json_unmarshal e (BodyBytes resp))\<rparr>"
    and "d2 = d1\<lparr>Finalizers := AddFinalizer (Finalizers d) finalizerName\<rparr>"
  shows "Reconcile e req w =
     (case status_update_fault e of
        Some err \<Rightarrow>
          (Returned (Some err),
           w\<lparr>trace := trace w @ [Call_Do (create_request (load_config e w) d),
                                  Call_StatusUpdate d1]\<rparr>)
      | None \<Rightarrow>
          (case update_fault e of
             Some err \<Rightarrow>
               (Returned (Some err),
                w\<lparr>trace := trace w @ [Call_Do (create_request (load_config e w) d),
                                       Call_StatusUpdate d1, Call_Update d2],
                  dashboards := store_put d1 (dashboards w)\<rparr>)
           | None \<Rightarrow>
               (Returned None,
                w\<lparr>trace := trace w @ [Call_Do (create_request (load_config e w) d),
                                       Call_StatusUpdate d1, Call_Update d2],
                  dashboards := store_put d2 (store_put d1 (dashboards w))\<rparr>)))"
proof -
  have id: "ident d = req" using assms(1) by (rule store_get_ident)
  have stored: "store_get (dashboards w) (ident d) = Some d" using assms(1) id by simp
  have id1: "ident d1 = ident d" using assms(7) by simp
  let ?w1 = "w\<lparr>trace := trace w @ [Call_Do (create_request (load_config e w) d),
                                     Call_StatusUpdate d1]\<rparr>"
  have cr: "create_and_record e d (load_config e w) w =
     (case status_update_fault e of
        Some err \<Rightarrow> (Inl (Returned (Some err)), ?w1)
      | None \<Rightarrow> (Inr d1, ?w1\<lparr>dashboards := store_put d1 (dashboards w)\<rparr>))"
    by (rule create_and_record_response [OF stored assms(5) assms(6) assms(7) refl])
  have stored1: "store_get (store_put d1 (dashboards w)) (ident d1) = Some d1"
    using store_get_put [of "dashboards w" d1 d] stored id1 by simp
  have fin: "add_finalizer_and_update e d1 (?w1\<lparr>dashboards := store_put d1 (dashboards w)\<rparr>) =
     (case update_fault e of
        Some err \<Rightarrow>
          (Returned (Some err),
           w\<lparr>trace := trace w @ [Call_Do (create_request (load_config e w) d),
                                  Call_StatusUpdate d1, Call_Update d2],
             dashboards := store_put d1 (dashboards w)\<rparr>)
      | None \<Rightarrow>
          (Returned None,
           w\<lparr>trace := trace w @ [Call_Do (create_request (load_config e w) d),
                                  Call_StatusUpdate d1, Call_Update d2],
             dashboards := store_put d2 (store_put d1 (dashboards w))\<rparr>))"
    using stored1 assms(2) assms(7) assms(8)
    by (subst add_finalizer_and_update_stored [where ?d2.0 = d2, OF _ _ _ refl])
       (simp_all split: option.split)
  show ?thesis
    using Get_stored [OF assms(4) assms(1)] assms(2) assms(3) cr fin
    by (simp add: Reconcile_found split: option.split)
qed

lemma Reconcile_delete_branch:
  assumes "get_fault e = None" and "store_get (dashboards w) req = Some d"
    and "DeletionTimestamp d \<noteq> None"
    and "d1 = d\<lparr>Finalizers := RemoveFinalizer (Finalizers d) finalizerName\<rparr>"
    and "cfg = load_config e w"
  shows "Reconcile e req w =
     (if new_request_err e ''DELETE'' (BaseUrl cfg @ ''/api/custom-dashboard/'' @ DashboardId d)
      then (Panicked, w)
      else case client_do e (delete_request cfg d) of
             No_response \<Rightarrow>
               (Panicked, w\<lparr>trace := trace w @ [Call_Do (delete_request cfg d)]\<rparr>)
           | Response resp \<Rightarrow>
               (case update_fault e of
                  Some err \<Rightarrow>
                    (Returned (Some err),
                     w\<lparr>trace := trace w @ [Call_Do (delete_request cfg d), Call_Update d1]\<rparr>)
                | None \<Rightarrow>
                    (Returned None,
                     w\<lparr>trace := trace w @ [Call_Do (delete_request cfg d), Call_Update d1],
                       dashboards :=
                         (if Finalizers d1 = [] then store_remove req (dashboards w)
                          else store_put d1 (dashboards w))\<rparr>)))"
proof -
  have id: "ident d = req" using assms(2) by (rule store_get_ident)
  have stored: "store_get (dashboards w) (ident d) = Some d" using assms(2) id by simp
  have R: "Reconcile e req w = delete_and_release e d cfg w"
    using Get_stored [OF assms(1) assms(2)] assms(3) assms(5) by (simp add: Reconcile_found)
  show ?thesis
  proof (cases "new_request_err e ''DELETE'' (BaseUrl cfg @ ''/api/custom-dashboard/'' @ DashboardId d)")
    case True
    then show ?thesis
      by (simp add: R delete_and_release_def deleteDashboardInInstana_cases)
  next
    case nr: False
    show ?thesis
    proof (cases "client_do e (delete_request cfg d)")
      case No_response
      then show ?thesis using nr
        by (simp add: R delete_and_release_def deleteDashboardInInstana_cases)
    next
      case (Response resp)
      show ?thesis
        using nr Response assms(3) id
        by (simp add: R delete_and_release_response [OF stored nr Response assms(4) refl]
            split: option.split)
    qed
  qed
qed

lemma Reconcile_create_branch:
  assumes "get_fault e = None" and "store_get (dashboards w) req = Some d"
    and "DeletionTimestamp d = None" and "DashboardId d = []"
    and "cfg = load_config e w"
  shows "Reconcile e req w =
     (if new_request_err e ''POST'' (BaseUrl cfg @ ''/api/custom-dashboard'') then (Panicked, w)
      else case client_do e (create_request cfg d) of
             No_response \<Rightarrow>
               (Panicked, w\<lparr>trace := trace w @ [Call_Do (create_request cfg d)]\<rparr>)
           | Response resp \<Rightarrow>
               (let d1 = d\<lparr>DashboardId := Id_resp (json_unmarshal e (BodyBytes resp)),
                            DashboardTitle := Title_resp (json_unmarshal e (BodyBytes resp))\<rparr>;
                    d2 = d1\<lparr>Finalizers := AddFinalizer (Finalizers d) finalizerName\<rparr>
                in case status_update_fault e of
                     Some err \<Rightarrow>
                       (Returned (Some err),
                        w\<lparr>trace := trace w @ [Call_Do (create_request cfg d),
                                               Call_StatusUpdate d1]\<rparr>)
                   | None \<Rightarrow>
                       (case update_fault e of
                          Some err \<Rightarrow>
                            (Returned (Some err),
                             w\<lparr>trace := trace w @ [Call_Do (create_request cfg d),
                                                    Call_StatusUpdate d1, Call_Update d2],
                               dashboards := store_put d1 (dashboards w)\<rparr>)
                        | None \<Rightarrow>
                            (Returned None,
                             w\<lparr>trace := trace w @ [Call_Do (create_request cfg d),
                                                    Call_StatusUpdate d1, Call_Update d2],
                               dashboards := store_put d2 (store_put d1 (dashboards w))\<rparr>))))"
proof (cases "new_request_err e ''POST'' (BaseUrl cfg @ ''/api/custom-dashboard'')")
  case True
  then show ?thesis
    using Get_stored [OF assms(1) assms(2)] assms(3) assms(4) assms(5)
    by (simp add: Reconcile_found create_and_record_def createDashboardInInstana_cases)
next
  case nr: False
  show ?thesis
  proof (cases "client_do e (create_request cfg d)")
    case No_response
    then show ?thesis
      using nr Get_stored [OF assms(1) assms(2)] assms(3) assms(4) assms(5)
      by (simp add: Reconcile_found create_and_record_def createDashboardInInstana_cases)
  next
    case (Response resp)
    have nr': "\<not> new_request_err e ''POST'' (BaseUrl (load_config e w) @ ''/api/custom-dashboard'')"
      using nr assms(5) by simp
    have resp': "client_do e (create_request (load_config e w) d) = Response resp"
      using Response assms(5) by simp
    show ?thesis
      using nr' resp' unfolding assms(5)
      by (simp add: Reconcile_create_response [OF assms(2) assms(3) assms(4) assms(1) nr' resp' refl refl]
          Let_def)
  qed
qed

subsection \<open>Create calls over many executions\<close>

lemma Reconcile_create_calls_le:
  "create_calls (snd (Reconcile e req w)) \<le> Suc (create_calls w)"
proof (cases "get_fault e \<noteq> None \<or> store_get (dashboards w) req = None")
  case True
  then have "snd (Reconcile e req w) = w" by (rule Reconcile_not_loaded)
  then show ?thesis by simp
next
  case False
  then obtain d where nf: "get_fault e = None" and st: "store_get (dashboards w) req = Some d"
    by auto
  show ?thesis
  proof (cases "DeletionTimestamp d \<noteq> None")
    case True
    show ?thesis
      by (simp add: Reconcile_delete_branch [OF nf st True refl refl] create_calls_def
          split: http_outcome.split option.split)
  next
    case no_deletion: False
    show ?thesis
    proof (cases "DashboardId d = []")
      case False
      have "Reconcile e req w = (Returned None, w)"
        using st False no_deletion nf by (simp add: Reconcile_provisioned)
      then show ?thesis by simp
    next
      case True
      have nd: "DeletionTimestamp d = None" using no_deletion by simp
      show ?thesis
        by (simp add: Reconcile_create_branch [OF nf st nd True refl] create_calls_def Let_def
            split: http_outcome.split option.split)
    qed
  qed
qed

lemma Reconcile_recorded:
  assumes "absent_or_recorded req w"
  shows "absent_or_recorded req (snd (Reconcile e req w))
         \<and> create_calls (snd (Reconcile e req w)) = create_calls w"
proof (cases "get_fault e \<noteq> None \<or> store_get (dashboards w) req = None")
  case True
  then have "snd (Reconcile e req w) = w" by (rule Reconcile_not_loaded)
  then show ?thesis using assms by simp
next
  case False
  then obtain d where nf: "get_fault e = None" and st: "store_get (dashboards w) req = Some d"
    by auto
  have id: "ident d = req" using st by (rule store_get_ident)
  have rec: "DashboardId d \<noteq> []" using assms st by (simp add: absent_or_recorded_def)
  show ?thesis
  proof (cases "DeletionTimestamp d \<noteq> None")
    case True
    show ?thesis
      using st id rec
      by (simp add: Reconcile_delete_branch [OF nf st True refl refl] create_calls_def
          absent_or_recorded_def store_get_put_eq store_get_remove_eq
          split: http_outcome.split option.split)
  next
    case False
    have "Reconcile e req w = (Returned None, w)"
      using st False rec nf by (simp add: Reconcile_provisioned)
    then show ?thesis using assms by simp
  qed
qed

lemma crash_between_writes_recorded:
  assumes "absent_or_recorded req w"
  shows "crash_between_writes e req w = None"
  using assms
  by (auto simp: crash_between_writes_def Get_def absent_or_recorded_def
      split: option.splits sum.splits)

lemma crash_between_writes_Some:
  assumes "crash_between_writes e req w = Some w1"
  shows "\<exists>d resp. store_get (dashboards w) req = Some d
           \<and> client_do e (create_request (load_config e w) d) = Response resp
           \<and> w1 = w\<lparr>trace := trace w @
                    [Call_Do (create_request (load_config e w) d),
                     Call_StatusUpdate
                       (d\<lparr>DashboardId := Id_resp (json_unmarshal e (BodyBytes resp)),
                          DashboardTitle := Title_resp (json_unmarshal e (BodyBytes resp))\<rparr>)],
                  dashboards := store_put
                       (d\<lparr>DashboardId := Id_resp (json_unmarshal e (BodyBytes resp)),
                          DashboardTitle := Title_resp (json_unmarshal e (BodyBytes resp))\<rparr>)
                       (dashboards w)\<rparr>"
proof -
  from assms obtain d where g: "Get (get_fault e) w req = Inr d"
    by (auto simp: crash_between_writes_def split: sum.splits)
  then have st: "store_get (dashboards w) req = Some d"
    by (auto simp: Get_def split: option.splits)
  have id: "ident d = req" using st by (rule store_get_ident)
  have stored: "store_get (dashboards w) (ident d) = Some d" using st id by simp
  from assms g have nr: "\<not> new_request_err e ''POST'' (BaseUrl (load_config e w) @ ''/api/custom-dashboard'')"
    by (auto simp: crash_between_writes_def create_and_record_def createDashboardInInstana_cases
        split: if_splits)
  from assms g nr obtain resp where resp: "client_do e (create_request (load_config e w) d) = Response resp"
    by (cases "client_do e (create_request (load_config e w) d)")
       (auto simp: crash_between_writes_def create_and_record_def createDashboardInInstana_cases
        split: if_splits)
  show ?thesis
    using assms g st resp
    by (auto simp: crash_between_writes_def
        create_and_record_response [OF stored nr resp refl refl]
        split: if_splits option.splits)
qed

lemma crash_between_writes_create_calls:
  assumes "crash_between_writes e req w = Some w1"
  shows "create_calls w1 = Suc (create_calls w)"
  using crash_between_writes_Some [OF assms] by (auto simp: create_calls_def)

lemma run_attempts_recorded:
  "absent_or_recorded req w \<Longrightarrow> create_calls (run_attempts ats req w) = create_calls w"
proof (induction ats arbitrary: w)
  case Nil
  then show ?case by simp
next
  case (Cons a ats)
  show ?case
  proof (cases a)
    case (Completes e)
    then show ?thesis
      using Cons.IH [of "snd (Reconcile e req w)"] Reconcile_recorded [OF Cons.prems, of e]
      by simp
  next
    case (Crashes e)
    then show ?thesis
      using Cons.IH [of "snd (Reconcile e req w)"] Reconcile_recorded [OF Cons.prems, of e]
        crash_between_writes_recorded [OF Cons.prems, of e]
      by simp
  qed
qed

lemma run_attempts_create_calls_le:
  "create_calls (run_attempts ats req w) \<le> create_calls w + length ats"
proof (induction ats arbitrary: w)
  case Nil
  then show ?case by simp
next
  case (Cons a ats)
  show ?case
  proof (cases a)
    case (Completes e)
    then show ?thesis
      using Cons.IH [of "snd (Reconcile e req w)"] Reconcile_create_calls_le [of e req w]
      by simp
  next
    case (Crashes e)
    show ?thesis
    proof (cases "crash_between_writes e req w")
      case None
      then show ?thesis
        using Crashes Cons.IH [of "snd (Reconcile e req w)"] Reconcile_create_calls_le [of e req w]
        by simp
    next
      case (Some w1)
      then show ?thesis
        using Crashes Cons.IH [of w1] crash_between_writes_create_calls [OF Some]
        by simp
    qed
  qed
qed

subsection \<open>The sample inputs\<close>

lemma sample_load_config: "load_config (sample_env a) (sample_world ds) = sample_config"
  by (simp add: load_config_def GetConfigMap_def sample_env_def sample_world_def
      data_lookup_def sample_config_def)

lemma sample_store_get:
  "ident d = sample_key \<Longrightarrow> store_get (dashboards (sample_world [d])) sample_key = Some d"
  by (simp add: sample_world_def store_get_def)

lemma sample_ident [simp]:
  "ident sample_pending = sample_key"
  "ident sample_provisioned = sample_key"
  by (simp_all add: ident_def sample_pending_def sample_provisioned_def sample_key_def)

lemma sample_ident_deleting [simp]:
  "ident sample_deleting = sample_key"
  "ident sample_deleting_unprovisioned = sample_key"
  by (simp_all add: ident_def sample_deleting_def sample_deleting_unprovisioned_def
      sample_pending_def sample_provisioned_def sample_key_def)

lemma sample_env_sel [simp]:
  "cm_get_fault (sample_env a) = None"
  "get_fault (sample_env a) = None"
  "new_request_err (sample_env a) m u = False"
  "client_do (sample_env a) r = a"
  "json_unmarshal (sample_env a) = sample_unmarshal"
  "status_update_fault (sample_env a) = None"
  "update_fault (sample_env a) = None"
  by (simp_all add: sample_env_def)

section \<open>Properties\<close>

text \<open>
  C1, the counterexample. A resource under deletion with \<open>DashboardId = d1\<close> and the
  finalizer; the remote delete is answered with status 503. \<open>Reconcile\<close> returns success,
  the object is written without the finalizer and the store drops it: the failure of the remote
  delete is neither reported nor does it keep the finalizer.
\<close>

theorem Reconcile_delete_failure_swallowed:
  "client_do (sample_env answer_unavailable) (delete_request sample_config sample_deleting)
     = Response \<lparr>StatusLine = ''503 Service Unavailable'', BodyBytes = []\<rparr>
   \<and> finalizerName \<in> set (Finalizers sample_deleting)
   \<and> Reconcile (sample_env answer_unavailable) sample_key (sample_world [sample_deleting])
       = (Returned None,
          (sample_world [])
            \<lparr>trace := [Call_Do (delete_request sample_config sample_deleting),
                       Call_Update (sample_deleting\<lparr>Finalizers := []\<rparr>)]\<rparr>)"
proof -
  let ?e = "sample_env answer_unavailable" and ?w = "sample_world [sample_deleting]"
  have cfg: "load_config ?e ?w = sample_config" by (rule sample_load_config)
  have h1: "store_get (dashboards ?w) sample_key = Some sample_deleting"
    by (simp add: sample_store_get)
  have h2: "DeletionTimestamp sample_deleting \<noteq> None" by (simp add: sample_deleting_def)
  have h3: "get_fault ?e = None" by (simp add: sample_env_def)
  have h6: "sample_deleting\<lparr>Finalizers := []\<rparr> =
      sample_deleting\<lparr>Finalizers := RemoveFinalizer (Finalizers sample_deleting) finalizerName\<rparr>"
    by (simp add: sample_deleting_def sample_provisioned_def RemoveFinalizer_def)
  have a: "client_do ?e (delete_request sample_config sample_deleting)
     = Response \<lparr>StatusLine = ''503 Service Unavailable'', BodyBytes = []\<rparr>"
    by (simp add: sample_env_def answer_unavailable_def)
  have b: "finalizerName \<in> set (Finalizers sample_deleting)"
    by (simp add: sample_deleting_def sample_provisioned_def)
  have c: "Reconcile ?e sample_key ?w
       = (Returned None,
          (sample_world [])
            \<lparr>trace := [Call_Do (delete_request sample_config sample_deleting),
                       Call_Update (sample_deleting\<lparr>Finalizers := []\<rparr>)]\<rparr>)"
    by (subst Reconcile_delete_branch [OF h3 h1 h2 h6 cfg [symmetric]])
       (simp add: answer_unavailable_def sample_world_def store_remove_def)
  show ?thesis using a b c by blast
qed

text \<open>
  C1, as the code has it. In the deletion branch, whenever the remote delete call yields a
  response, of whatever status, the finalizer is removed and the object is written;
  \<open>Reconcile\<close> returns the result of that write, success when the write succeeds, and
  nothing of what the remote service answered. After a successful write the store holds the
  object without the finalizer, or no longer holds it when that was its last finalizer.
\<close>

theorem Reconcile_delete_any_response:
  assumes "store_get (dashboards w) req = Some d"
    and "DeletionTimestamp d \<noteq> None"
    and "get_fault e = None"
    and "\<not> new_request_err e ''DELETE''
            (BaseUrl (load_config e w) @ ''/api/custom-dashboard/'' @ DashboardId d)"
    and "client_do e (delete_request (load_config e w) d) = Response resp"
    and "d1 = d\<lparr>Finalizers := RemoveFinalizer (Finalizers d) finalizerName\<rparr>"
  shows "new_events w (snd (Reconcile e req w)) =
           [Call_Do (delete_request (load_config e w) d), Call_Update d1]
         \<and> finalizerName \<notin> set (Finalizers d1)
         \<and> fst (Reconcile e req w) = Returned (update_fault e)
         \<and> (update_fault e = None \<longrightarrow>
              store_get (dashboards (snd (Reconcile e req w))) req =
                (if Finalizers d1 = [] then None else Some d1))"
proof -
  note R = Reconcile_delete_branch [OF assms(3) assms(1) assms(2) assms(6) refl]
  have id: "ident d1 = req" using store_get_ident [OF assms(1)] assms(6) by simp
  have put: "store_get (store_put d1 (dashboards w)) req = Some d1"
    using store_get_put [of "dashboards w" d1 d] assms(1) id by simp
  have ev: "new_events w (snd (Reconcile e req w)) =
           [Call_Do (delete_request (load_config e w) d), Call_Update d1]"
    using assms(4) assms(5) by (simp add: R new_events_def split: option.split)
  have out: "fst (Reconcile e req w) = Returned (update_fault e)"
    using assms(4) assms(5) by (simp add: R split: option.split)
  have st: "update_fault e = None \<longrightarrow>
              store_get (dashboards (snd (Reconcile e req w))) req =
                (if Finalizers d1 = [] then None else Some d1)"
    using assms(4) assms(5) put by (simp add: R store_get_remove)
  have fin: "finalizerName \<notin> set (Finalizers d1)"
    using assms(6) by (simp add: finalizerName_notin_RemoveFinalizer)
  show ?thesis using ev out st fin by blast
qed

theorem Reconcile_delete_any_response_witness:
  "new_events (sample_world [sample_deleting])
      (snd (Reconcile (sample_env answer_deleted) sample_key (sample_world [sample_deleting])))
     = [Call_Do (delete_request sample_config sample_deleting),
        Call_Update (sample_deleting\<lparr>Finalizers := []\<rparr>)]
   \<and> fst (Reconcile (sample_env answer_deleted) sample_key (sample_world [sample_deleting]))
       = Returned None
   \<and> store_get (dashboards (snd (Reconcile (sample_env answer_deleted) sample_key
         (sample_world [sample_deleting])))) sample_key = None"
proof -
  let ?e = "sample_env answer_deleted" and ?w = "sample_world [sample_deleting]"
  have cfg: "load_config ?e ?w = sample_config" by (rule sample_load_config)
  have h1: "store_get (dashboards ?w) sample_key = Some sample_deleting"
    by (simp add: sample_store_get)
  have h2: "DeletionTimestamp sample_deleting \<noteq> None" by (simp add: sample_deleting_def)
  have h3: "get_fault ?e = None" by (simp add: sample_env_def)
  have h4: "\<not> new_request_err ?e ''DELETE''
            (BaseUrl (load_config ?e ?w) @ ''/api/custom-dashboard/'' @ DashboardId sample_deleting)"
    by (simp add: sample_env_def)
  have h5: "client_do ?e (delete_request (load_config ?e ?w) sample_deleting)
            = Response \<lparr>StatusLine = ''204 No Content'', BodyBytes = []\<rparr>"
    by (simp add: sample_env_def answer_deleted_def)
  have h6: "sample_deleting\<lparr>Finalizers := []\<rparr> =
      sample_deleting\<lparr>Finalizers := RemoveFinalizer (Finalizers sample_deleting) finalizerName\<rparr>"
    by (simp add: sample_deleting_def sample_provisioned_def RemoveFinalizer_def)
  have h7: "update_fault ?e = None" by (simp add: sample_env_def)
  show ?thesis
    using Reconcile_delete_any_response [OF h1 h2 h3 h4 h5 h6] h7 cfg by simp
qed

text \<open>
  C2, the counterexample. A resource under deletion that holds the finalizer and whose
  \<open>DashboardId\<close> is empty (its create was answered without an id): the remote delete is
  called all the same, with the URL that ends in the slash, and answered; the write that removes
  the finalizer comes after it.
\<close>

theorem Reconcile_delete_called_with_empty_id:
  "DeletionTimestamp sample_deleting_unprovisioned \<noteq> None
   \<and> finalizerName \<in> set (Finalizers sample_deleting_unprovisioned)
   \<and> DashboardId sample_deleting_unprovisioned = []
   \<and> trace (snd (Reconcile (sample_env answer_deleted) sample_key
          (sample_world [sample_deleting_unprovisioned])))
     = [Call_Do \<lparr>Method = ''DELETE'', Url = ''http://i/api/custom-dashboard/'',
                 Header = request_headers sample_config, Body = None\<rparr>,
        Call_Update (sample_deleting_unprovisioned\<lparr>Finalizers := []\<rparr>)]"
proof -
  let ?e = "sample_env answer_deleted" and ?w = "sample_world [sample_deleting_unprovisioned]"
  have cfg: "load_config ?e ?w = sample_config" by (rule sample_load_config)
  have h1: "store_get (dashboards ?w) sample_key = Some sample_deleting_unprovisioned"
    by (simp add: sample_store_get)
  have h2: "DeletionTimestamp sample_deleting_unprovisioned \<noteq> None"
    by (simp add: sample_deleting_unprovisioned_def)
  have h3: "get_fault ?e = None" by (simp add: sample_env_def)
  have h4: "sample_deleting_unprovisioned\<lparr>Finalizers := []\<rparr> =
      sample_deleting_unprovisioned
        \<lparr>Finalizers := RemoveFinalizer (Finalizers sample_deleting_unprovisioned) finalizerName\<rparr>"
    by (simp add: sample_deleting_unprovisioned_def RemoveFinalizer_def)
  have h5: "finalizerName \<in> set (Finalizers sample_deleting_unprovisioned)"
    by (simp add: sample_deleting_unprovisioned_def)
  have h6: "DashboardId sample_deleting_unprovisioned = []"
    by (simp add: sample_deleting_unprovisioned_def sample_pending_def)
  have c: "trace (snd (Reconcile ?e sample_key ?w))
     = [Call_Do \<lparr>Method = ''DELETE'', Url = ''http://i/api/custom-dashboard/'',
                 Header = request_headers sample_config, Body = None\<rparr>,
        Call_Update (sample_deleting_unprovisioned\<lparr>Finalizers := []\<rparr>)]"
    by (subst Reconcile_delete_branch [OF h3 h1 h2 h4 cfg [symmetric]])
       (simp add: answer_deleted_def sample_world_def delete_request_def h6 sample_config_def)
  show ?thesis using h2 h5 h6 c by blast
qed

text \<open>
  C2, as the code has it. In the deletion branch the remote delete is called once and first,
  whether or not \<open>DashboardId\<close> is empty: the URL handed to \<open>http.NewRequest\<close> is the
  base URL, then \<open>/api/custom-dashboard/\<close>, then \<open>DashboardId\<close>. The write that removes
  the finalizer follows when the call yields a response. (The request has to be one that
  \<open>http.NewRequest\<close> accepts.)
\<close>

theorem Reconcile_delete_call_unconditional:
  assumes "store_get (dashboards w) req = Some d"
    and "DeletionTimestamp d \<noteq> None"
    and "get_fault e = None"
    and "\<not> new_request_err e ''DELETE''
            (BaseUrl (load_config e w) @ ''/api/custom-dashboard/'' @ DashboardId d)"
  shows "new_events w (snd (Reconcile e req w)) =
           Call_Do (delete_request (load_config e w) d)
           # (case client_do e (delete_request (load_config e w) d) of
                No_response \<Rightarrow> []
              | Response resp \<Rightarrow>
                  [Call_Update (d\<lparr>Finalizers := RemoveFinalizer (Finalizers d) finalizerName\<rparr>)])
         \<and> Method (delete_request (load_config e w) d) = ''DELETE''
         \<and> Url (delete_request (load_config e w) d) =
             BaseUrl (load_config e w) @ ''/api/custom-dashboard/'' @ DashboardId d"
  using assms(4)
  by (simp add: Reconcile_delete_branch [OF assms(3) assms(1) assms(2) refl refl] new_events_def
      delete_request_def split: http_outcome.split option.split)

theorem Reconcile_delete_call_unconditional_witness:
  "finalizerName \<in> set (Finalizers sample_deleting_unprovisioned)
   \<and> DashboardId sample_deleting_unprovisioned = []
   \<and> client_do (sample_env answer_unavailable)
        (delete_request sample_config sample_deleting_unprovisioned)
       = Response \<lparr>StatusLine = ''503 Service Unavailable'', BodyBytes = []\<rparr>
   \<and> new_events (sample_world [sample_deleting_unprovisioned])
      (snd (Reconcile (sample_env answer_unavailable) sample_key
         (sample_world [sample_deleting_unprovisioned])))
     = [Call_Do (delete_request sample_config sample_deleting_unprovisioned),
        Call_Update (sample_deleting_unprovisioned\<lparr>Finalizers := []\<rparr>)]
   \<and> Url (delete_request sample_config sample_deleting_unprovisioned)
       = ''http://i/api/custom-dashboard/''"
proof -
  let ?e = "sample_env answer_unavailable"
  let ?w = "sample_world [sample_deleting_unprovisioned]"
  have cfg: "load_config ?e ?w = sample_config" by (rule sample_load_config)
  have h1: "store_get (dashboards ?w) sample_key = Some sample_deleting_unprovisioned"
    by (simp add: sample_store_get)
  have h2: "DeletionTimestamp sample_deleting_unprovisioned \<noteq> None"
    by (simp add: sample_deleting_unprovisioned_def)
  have h3: "get_fault ?e = None" by (simp add: sample_env_def)
  have h4: "\<not> new_request_err ?e ''DELETE''
            (BaseUrl (load_config ?e ?w) @ ''/api/custom-dashboard/''
             @ DashboardId sample_deleting_unprovisioned)"
    by (simp add: sample_env_def)
  have h5: "client_do ?e (delete_request sample_config sample_deleting_unprovisioned)
            = Response \<lparr>StatusLine = ''503 Service Unavailable'', BodyBytes = []\<rparr>"
    by (simp add: answer_unavailable_def)
  have h6: "DashboardId sample_deleting_unprovisioned = []"
    by (simp add: sample_deleting_unprovisioned_def sample_pending_def)
  have h7: "finalizerName \<in> set (Finalizers sample_deleting_unprovisioned)"
    by (simp add: sample_deleting_unprovisioned_def)
  have h8: "RemoveFinalizer (Finalizers sample_deleting_unprovisioned) finalizerName = []"
    by (simp add: sample_deleting_unprovisioned_def RemoveFinalizer_def)
  show ?thesis
    using Reconcile_delete_call_unconditional [OF h1 h2 h3 h4] h5 h6 h7 h8 cfg
    by (simp add: sample_config_def answer_unavailable_def)
qed

text \<open>
  C3. A resource with a non-empty \<open>DashboardId\<close> and no deletion timestamp is skipped:
  any number of executions, whatever the remote service would answer, all return success and
  leave the world as it was, so that no remote call and no store write is made.
\<close>

theorem reconciles_provisioned_noop:
  assumes "store_get (dashboards w) req = Some d" and "DashboardId d \<noteq> []"
    and "DeletionTimestamp d = None" and "\<forall>e \<in> set es. get_fault e = None"
  shows "reconciles es req w = (replicate (length es) (Returned None), w)"
  using assms by (induction es) (simp_all add: Reconcile_provisioned)

theorem reconciles_provisioned_noop_witness:
  "reconciles [sample_env answer_created, sample_env No_response] sample_key
     (sample_world [sample_provisioned])
   = ([Returned None, Returned None], sample_world [sample_provisioned])"
proof -
  have h1: "store_get (dashboards (sample_world [sample_provisioned])) sample_key
            = Some sample_provisioned"
    by (simp add: sample_world_def store_get_def sample_provisioned_def sample_pending_def
        sample_key_def ident_def)
  have h2: "DashboardId sample_provisioned \<noteq> []"
    by (simp add: sample_provisioned_def)
  have h3: "DeletionTimestamp sample_provisioned = None"
    by (simp add: sample_provisioned_def sample_pending_def)
  have h4: "\<forall>e \<in> set [sample_env answer_created, sample_env No_response]. get_fault e = None"
    by (simp add: sample_env_def)
  show ?thesis using reconciles_provisioned_noop [OF h1 h2 h3 h4] by simp
qed

text \<open>
  C4, the counterexample. A pending resource is reconciled twice. In the first run the remote
  create succeeds and the status write is rejected with a conflict; the second run finds the
  stored \<open>DashboardId\<close> still empty and creates again: two create calls. The same happens
  when a run that got a 503 answer, and so wrote an empty id, dies between the two writes.
\<close>

theorem run_attempts_creates_twice:
  "DashboardId sample_pending = [] \<and> DeletionTimestamp sample_pending = None
   \<and> create_calls (sample_world [sample_pending]) = 0
   \<and> create_calls
        (run_attempts
           [Completes ((sample_env answer_created)\<lparr>status_update_fault := Some Conflict\<rparr>),
            Completes (sample_env answer_created)]
           sample_key (sample_world [sample_pending])) = 2
   \<and> create_calls
        (run_attempts
           [Crashes (sample_env answer_unavailable), Completes (sample_env answer_created)]
           sample_key (sample_world [sample_pending])) = 2"
  by code_simp

text \<open>
  C4, as the code has it. Over any sequence of executions, complete or dying between the status
  write and the metadata write, every execution makes at most one create call; once the store
  holds a non-empty \<open>DashboardId\<close> for the resource no execution makes one; and when an
  execution dies between the two writes after a non-empty id was written, the create call it made
  stays the only one.
\<close>

theorem run_attempts_create_calls:
  "create_calls (run_attempts ats req w) \<le> create_calls w + length ats
   \<and> ((\<exists>d. store_get (dashboards w) req = Some d \<and> DashboardId d \<noteq> []) \<longrightarrow>
        create_calls (run_attempts ats req w) = create_calls w)
   \<and> (\<forall>e w1 d1. crash_between_writes e req w = Some w1 \<longrightarrow>
        store_get (dashboards w1) req = Some d1 \<longrightarrow> DashboardId d1 \<noteq> [] \<longrightarrow>
        create_calls (run_attempts ats req w1) = Suc (create_calls w))"
proof -
  have a: "create_calls (run_attempts ats req w) \<le> create_calls w + length ats"
    by (rule run_attempts_create_calls_le)
  have b: "(\<exists>d. store_get (dashboards w) req = Some d \<and> DashboardId d \<noteq> []) \<longrightarrow>
        create_calls (run_attempts ats req w) = create_calls w"
    by (auto simp: absent_or_recorded_def intro!: run_attempts_recorded)
  have c: "\<forall>e w1 d1. crash_between_writes e req w = Some w1 \<longrightarrow>
        store_get (dashboards w1) req = Some d1 \<longrightarrow> DashboardId d1 \<noteq> [] \<longrightarrow>
        create_calls (run_attempts ats req w1) = Suc (create_calls w)"
  proof (intro allI impI)
    fix e w1 d1
    assume cr: "crash_between_writes e req w = Some w1"
      and st: "store_get (dashboards w1) req = Some d1" and rec: "DashboardId d1 \<noteq> []"
    have "absent_or_recorded req w1" using st rec by (simp add: absent_or_recorded_def)
    then have "create_calls (run_attempts ats req w1) = create_calls w1"
      by (rule run_attempts_recorded)
    then show "create_calls (run_attempts ats req w1) = Suc (create_calls w)"
      using crash_between_writes_create_calls [OF cr] by simp
  qed
  show ?thesis using a b c by blast
qed

theorem run_attempts_create_calls_witness:
  "crash_between_writes (sample_env answer_created) sample_key (sample_world [sample_pending])
     = Some sample_crashed
   \<and> create_calls
        (run_attempts [Completes (sample_env answer_created), Crashes (sample_env answer_created)]
           sample_key sample_crashed) = 1"
proof -
  have h1: "crash_between_writes (sample_env answer_created) sample_key
              (sample_world [sample_pending]) = Some sample_crashed"
    by code_simp
  have h2: "store_get (dashboards sample_crashed) sample_key
              = Some (sample_pending\<lparr>DashboardId := ''d1'', DashboardTitle := ''X''\<rparr>)"
    by code_simp
  have h3: "DashboardId (sample_pending\<lparr>DashboardId := ''d1'', DashboardTitle := ''X''\<rparr>) \<noteq> []"
    by simp
  have h4: "create_calls (sample_world [sample_pending]) = 0"
    by (simp add: create_calls_def sample_world_def)
  have "create_calls
        (run_attempts [Completes (sample_env answer_created), Crashes (sample_env answer_created)]
           sample_key sample_crashed) = Suc (create_calls (sample_world [sample_pending]))"
    using run_attempts_create_calls
      [of "[Completes (sample_env answer_created), Crashes (sample_env answer_created)]"
          sample_key "sample_world [sample_pending]"] h1 h2 h3
    by blast
  then show ?thesis using h1 h4 by simp
qed

text \<open>
  C5. The create branch runs in a fixed order. The remote create is called with
  \<open>Spec.Config\<close> as its body; the status of the object is set from the response and written;
  only when that write has succeeded is the finalizer added and the object written a second
  time. When both writes succeed the execution returns success and the stored object has the
  id of the response and the finalizer. For a pending resource and the response
  \<open>{"id":"d1","title":"X"}\<close> the stored object ends with \<open>DashboardId = d1\<close> and the
  finalizer.
\<close>

theorem Reconcile_create_order:
  assumes "store_get (dashboards w) req = Some d"
    and "DeletionTimestamp d = None" and "DashboardId d = []"
    and "get_fault e = None"
    and "\<not> new_request_err e ''POST'' (BaseUrl (load_config e w) @ ''/api/custom-dashboard'')"
    and "client_do e (create_request (load_config e w) d) = Response resp"
    and "d1 = d\<lparr>DashboardId := Id_resp (json_unmarshal e (BodyBytes resp)),
                 DashboardTitle := Title_resp (json_unmarshal e (BodyBytes resp))\<rparr>"
    and "d2 = d1\<lparr>Finalizers := AddFinalizer (Finalizers d) finalizerName\<rparr>"
  shows "new_events w (snd (Reconcile e req w)) =
           [Call_Do (create_request (load_config e w) d), Call_StatusUpdate d1]
           @ (if status_update_fault e = None then [Call_Update d2] else [])
         \<and> Body (create_request (load_config e w) d) = Some (Config d)
         \<and> (status_update_fault e = None \<longrightarrow> update_fault e = None \<longrightarrow>
              fst (Reconcile e req w) = Returned None
              \<and> store_get (dashboards (snd (Reconcile e req w))) req = Some d2
              \<and> DashboardId d2 = Id_resp (json_unmarshal e (BodyBytes resp))
              \<and> finalizerName \<in> set (Finalizers d2))"
proof -
  note R = Reconcile_create_response [OF assms]
  have ev: "new_events w (snd (Reconcile e req w)) =
           [Call_Do (create_request (load_config e w) d), Call_StatusUpdate d1]
           @ (if status_update_fault e = None then [Call_Update d2] else [])"
    by (simp add: R new_events_def split: option.split)
  have body: "Body (create_request (load_config e w) d) = Some (Config d)"
    by (simp add: create_request_def)
  have ids: "ident d1 = ident d" "ident d2 = ident d"
    using assms(7) assms(8) by simp_all
  have fin: "status_update_fault e = None \<longrightarrow> update_fault e = None \<longrightarrow>
              fst (Reconcile e req w) = Returned None
              \<and> store_get (dashboards (snd (Reconcile e req w))) req = Some d2
              \<and> DashboardId d2 = Id_resp (json_unmarshal e (BodyBytes resp))
              \<and> finalizerName \<in> set (Finalizers d2)"
    using store_get_put_put [OF assms(1) ids] assms(7) assms(8)
    by (simp add: R finalizerName_in_AddFinalizer)
  show ?thesis using ev body fin by blast
qed

theorem Reconcile_create_order_witness:
  "new_events (sample_world [sample_pending])
      (snd (Reconcile (sample_env answer_created) sample_key (sample_world [sample_pending])))
     = [Call_Do (create_request sample_config sample_pending),
        Call_StatusUpdate (sample_pending\<lparr>DashboardId := ''d1'', DashboardTitle := ''X''\<rparr>),
        Call_Update sample_provisioned]
   \<and> fst (Reconcile (sample_env answer_created) sample_key (sample_world [sample_pending]))
       = Returned None
   \<and> store_get (dashboards (snd (Reconcile (sample_env answer_created) sample_key
         (sample_world [sample_pending])))) sample_key = Some sample_provisioned
   \<and> DashboardId sample_provisioned = ''d1''
   \<and> finalizerName \<in> set (Finalizers sample_provisioned)"
proof -
  let ?e = "sample_env answer_created" and ?w = "sample_world [sample_pending]"
  have cfg: "load_config ?e ?w = sample_config" by (rule sample_load_config)
  have h1: "store_get (dashboards ?w) sample_key = Some sample_pending"
    by (simp add: sample_store_get)
  have h2: "DeletionTimestamp sample_pending = None" by (simp add: sample_pending_def)
  have h3: "DashboardId sample_pending = []" by (simp add: sample_pending_def)
  have h4: "get_fault ?e = None" by (simp add: sample_env_def)
  have h5: "\<not> new_request_err ?e ''POST'' (BaseUrl (load_config ?e ?w) @ ''/api/custom-dashboard'')"
    by (simp add: sample_env_def)
  have h6: "client_do ?e (create_request (load_config ?e ?w) sample_pending)
            = Response \<lparr>StatusLine = ''200 OK'', BodyBytes = ''{\"id\":\"d1\",\"title\":\"X\"}''\<rparr>"
    by (simp add: sample_env_def answer_created_def)
  have h7: "sample_pending\<lparr>DashboardId := ''d1'', DashboardTitle := ''X''\<rparr> =
     sample_pending\<lparr>DashboardId := Id_resp (json_unmarshal ?e (BodyBytes
         \<lparr>StatusLine = ''200 OK'', BodyBytes = ''{\"id\":\"d1\",\"title\":\"X\"}''\<rparr>)),
       DashboardTitle := Title_resp (json_unmarshal ?e (BodyBytes
         \<lparr>StatusLine = ''200 OK'', BodyBytes = ''{\"id\":\"d1\",\"title\":\"X\"}''\<rparr>))\<rparr>"
    by (simp add: sample_env_def sample_unmarshal_def)
  have h8: "sample_provisioned = sample_pending\<lparr>DashboardId := ''d1'', DashboardTitle := ''X''\<rparr>
      \<lparr>Finalizers := AddFinalizer (Finalizers sample_pending) finalizerName\<rparr>"
    by (simp add: sample_provisioned_def sample_pending_def AddFinalizer_def)
  have h9: "status_update_fault ?e = None" "update_fault ?e = None"
    by (simp_all add: sample_env_def)
  show ?thesis
    using Reconcile_create_order [OF h1 h2 h3 h4 h5 h6 h7 h8] h9 cfg
    by (simp add: sample_provisioned_def finalizerName_def)
qed

text \<open>
  C6. When the stored \<open>DashboardId\<close> is not empty at the start of an execution, the
  execution makes no status write, every object it writes carries the same id, and afterwards
  the store holds the same id and title, or no longer holds the object, which happens only to an
  object under deletion.
\<close>

theorem Reconcile_keeps_remote_id:
  assumes "store_get (dashboards w) req = Some d" and "DashboardId d \<noteq> []"
  shows "(case store_get (dashboards (snd (Reconcile e req w))) req of
            None \<Rightarrow> DeletionTimestamp d \<noteq> None
          | Some d' \<Rightarrow> DashboardId d' = DashboardId d \<and> DashboardTitle d' = DashboardTitle d)
         \<and> (\<forall>ev \<in> set (new_events w (snd (Reconcile e req w))).
               case ev of
                 Call_Do r \<Rightarrow> True
               | Call_StatusUpdate x \<Rightarrow> False
               | Call_Update x \<Rightarrow> DashboardId x = DashboardId d)"
proof (cases "get_fault e")
  case (Some err)
  then have "snd (Reconcile e req w) = w" by (simp add: Reconcile_not_loaded)
  then show ?thesis using assms by simp
next
  case None
  show ?thesis
  proof (cases "DeletionTimestamp d")
    case no_deletion: None
    have "Reconcile e req w = (Returned None, w)"
      using assms no_deletion None by (rule Reconcile_provisioned)
    then show ?thesis using assms by simp
  next
    case (Some ts)
    then have del: "DeletionTimestamp d \<noteq> None" by simp
    have id: "ident d = req" using assms(1) by (rule store_get_ident)
    show ?thesis
      using assms id del
      by (simp add: Reconcile_delete_branch [OF None assms(1) del refl refl] new_events_def
          store_get_put_eq store_get_remove_eq split: http_outcome.split option.split)
  qed
qed

theorem Reconcile_keeps_remote_id_witness:
  "(case store_get (dashboards (snd (Reconcile (sample_env answer_created) sample_key
           (sample_world [sample_provisioned])))) sample_key of
      None \<Rightarrow> False
    | Some d' \<Rightarrow> DashboardId d' = ''d1'' \<and> DashboardTitle d' = ''X'')"
proof -
  have h1: "store_get (dashboards (sample_world [sample_provisioned])) sample_key
            = Some sample_provisioned"
    by (simp add: sample_store_get)
  have h2: "DashboardId sample_provisioned \<noteq> []" by (simp add: sample_provisioned_def)
  have h3: "DeletionTimestamp sample_provisioned = None"
    by (simp add: sample_provisioned_def sample_pending_def)
  have h4: "DashboardId sample_provisioned = ''d1''" "DashboardTitle sample_provisioned = ''X''"
    by (simp_all add: sample_provisioned_def)
  show ?thesis
    using Reconcile_keeps_remote_id [OF h1 h2, of "sample_env answer_created"] h3 h4
    by (simp split: option.splits)
qed

text \<open>
  C7. Reconciling an identity that is absent from the store, the store answering the read,
  returns success, makes no remote call and no store write: the world, with its history of
  calls, is the one before.
\<close>

theorem Reconcile_absent_noop:
  assumes "store_get (dashboards w) req = None" and "get_fault e = None"
  shows "Reconcile e req w = (Returned None, w)"
  using assms by (simp add: Reconcile_def Get_def IgnoreNotFound_def)

theorem Reconcile_absent_noop_witness:
  "store_get (dashboards (sample_world [])) sample_key = None
   \<and> get_fault (sample_env No_response) = None
   \<and> Reconcile (sample_env No_response) sample_key (sample_world [])
       = (Returned None, sample_world [])"
proof -
  have h1: "store_get (dashboards (sample_world [])) sample_key = None"
    by (simp add: sample_world_def store_get_def)
  have h2: "get_fault (sample_env No_response) = None"
    by (simp add: sample_env_def)
  show ?thesis using h1 h2 Reconcile_absent_noop [OF h1 h2] by simp
qed

text \<open>
  C8. In the create branch, once the status write has succeeded, the finalizer is added and
  the metadata write is called whatever the remote create answered: the id written is the one
  \<open>json.Unmarshal\<close> left, empty or not. With a 503 answer and an empty body the stored
  object ends with an empty \<open>DashboardId\<close> and the finalizer present.
\<close>

theorem Reconcile_finalizer_whatever_response:
  assumes "store_get (dashboards w) req = Some d"
    and "DeletionTimestamp d = None" and "DashboardId d = []"
    and "get_fault e = None"
    and "\<not> new_request_err e ''POST'' (BaseUrl (load_config e w) @ ''/api/custom-dashboard'')"
    and "client_do e (create_request (load_config e w) d) = Response resp"
    and "status_update_fault e = None"
    and "d2 = d\<lparr>DashboardId := Id_resp (json_unmarshal e (BodyBytes resp)),
                 DashboardTitle := Title_resp (json_unmarshal e (BodyBytes resp)),
                 Finalizers := AddFinalizer (Finalizers d) finalizerName\<rparr>"
  shows "last (trace (snd (Reconcile e req w))) = Call_Update d2
         \<and> finalizerName \<in> set (Finalizers d2)
         \<and> DashboardId d2 = Id_resp (json_unmarshal e (BodyBytes resp))
         \<and> (update_fault e = None \<longrightarrow>
              store_get (dashboards (snd (Reconcile e req w))) req = Some d2)"
proof -
  let ?d1 = "d\<lparr>DashboardId := Id_resp (json_unmarshal e (BodyBytes resp)),
                DashboardTitle := Title_resp (json_unmarshal e (BodyBytes resp))\<rparr>"
  have d2: "d2 = ?d1\<lparr>Finalizers := AddFinalizer (Finalizers d) finalizerName\<rparr>"
    using assms(8) by simp
  note R = Reconcile_create_response [OF assms(1-6) refl d2]
  have ids: "ident ?d1 = ident d" "ident d2 = ident d"
    using d2 by simp_all
  have call: "last (trace (snd (Reconcile e req w))) = Call_Update d2"
    using assms(7) by (simp add: R split: option.split)
  have stored: "update_fault e = None \<longrightarrow>
              store_get (dashboards (snd (Reconcile e req w))) req = Some d2"
    using assms(7) store_get_put_put [OF assms(1) ids] by (simp add: R)
  show ?thesis
    using call stored assms(8) by (simp add: finalizerName_in_AddFinalizer)
qed

theorem Reconcile_finalizer_whatever_response_witness:
  "client_do (sample_env answer_unavailable) (create_request sample_config sample_pending)
     = Response \<lparr>StatusLine = ''503 Service Unavailable'', BodyBytes = []\<rparr>
   \<and> store_get (dashboards (snd (Reconcile (sample_env answer_unavailable) sample_key
         (sample_world [sample_pending])))) sample_key
       = Some (sample_pending\<lparr>Finalizers := [finalizerName]\<rparr>)
   \<and> DashboardId (sample_pending\<lparr>Finalizers := [finalizerName]\<rparr>) = []
   \<and> finalizerName \<in> set (Finalizers (sample_pending\<lparr>Finalizers := [finalizerName]\<rparr>))"
proof -
  let ?e = "sample_env answer_unavailable" and ?w = "sample_world [sample_pending]"
  let ?resp = "\<lparr>StatusLine = ''503 Service Unavailable'', BodyBytes = []\<rparr>"
  have cfg: "load_config ?e ?w = sample_config" by (rule sample_load_config)
  have h1: "store_get (dashboards ?w) sample_key = Some sample_pending"
    by (simp add: sample_store_get)
  have h2: "DeletionTimestamp sample_pending = None" by (simp add: sample_pending_def)
  have h3: "DashboardId sample_pending = []" by (simp add: sample_pending_def)
  have h4: "get_fault ?e = None" by (simp add: sample_env_def)
  have h5: "\<not> new_request_err ?e ''POST'' (BaseUrl (load_config ?e ?w) @ ''/api/custom-dashboard'')"
    by (simp add: sample_env_def)
  have h6: "client_do ?e (create_request (load_config ?e ?w) sample_pending) = Response ?resp"
    by (simp add: sample_env_def answer_unavailable_def)
  have h7: "status_update_fault ?e = None" by (simp add: sample_env_def)
  have h8: "sample_pending\<lparr>Finalizers := [finalizerName]\<rparr> =
     sample_pending\<lparr>DashboardId := Id_resp (json_unmarshal ?e (BodyBytes ?resp)),
       DashboardTitle := Title_resp (json_unmarshal ?e (BodyBytes ?resp)),
       Finalizers := AddFinalizer (Finalizers sample_pending) finalizerName\<rparr>"
    by (simp add: sample_env_def sample_unmarshal_def sample_pending_def AddFinalizer_def)
  have h9: "update_fault ?e = None" by (simp add: sample_env_def)
  show ?thesis
    using Reconcile_finalizer_whatever_response [OF h1 h2 h3 h4 h5 h6 h7 h8] h6 h9 cfg
    by (simp add: sample_pending_def)
qed

text \<open>
  C9. In the create branch, when the status write fails, \<open>Reconcile\<close> returns that error at
  once: the calls made are the remote create and the status write, \<open>Update\<close> is never
  called, the finalizer is not added and the store is as before.
\<close>

theorem Reconcile_status_write_error:
  assumes "store_get (dashboards w) req = Some d"
    and "DeletionTimestamp d = None" and "DashboardId d = []"
    and "get_fault e = None"
    and "\<not> new_request_err e ''POST'' (BaseUrl (load_config e w) @ ''/api/custom-dashboard'')"
    and "client_do e (create_request (load_config e w) d) = Response resp"
    and "status_update_fault e = Some err"
    and "d1 = d\<lparr>DashboardId := Id_resp (json_unmarshal e (BodyBytes resp)),
                 DashboardTitle := Title_resp (json_unmarshal e (BodyBytes resp))\<rparr>"
  shows "Reconcile e req w =
           (Returned (Some err),
            w\<lparr>trace := trace w @ [Call_Do (create_request (load_config e w) d),
                                   Call_StatusUpdate d1]\<rparr>)
         \<and> dashboards (snd (Reconcile e req w)) = dashboards w
         \<and> (\<forall>x. Call_Update x \<notin> set (new_events w (snd (Reconcile e req w))))"
  using assms(7) by (simp add: Reconcile_create_response [OF assms(1-6) assms(8) refl] new_events_def)

theorem Reconcile_status_write_error_witness:
  "Reconcile ((sample_env answer_created)\<lparr>status_update_fault := Some Conflict\<rparr>) sample_key
       (sample_world [sample_pending])
     = (Returned (Some Conflict),
        (sample_world [sample_pending])
          \<lparr>trace := [Call_Do (create_request sample_config sample_pending),
                     Call_StatusUpdate
                       (sample_pending\<lparr>DashboardId := ''d1'', DashboardTitle := ''X''\<rparr>)]\<rparr>)"
proof -
  let ?e = "(sample_env answer_created)\<lparr>status_update_fault := Some Conflict\<rparr>"
  let ?w = "sample_world [sample_pending]"
  let ?resp = "\<lparr>StatusLine = ''200 OK'', BodyBytes = ''{\"id\":\"d1\",\"title\":\"X\"}''\<rparr>"
  have cfg: "load_config ?e ?w = sample_config"
    by (simp add: load_config_def GetConfigMap_def sample_env_def sample_world_def
      data_lookup_def sample_config_def)
  have h1: "store_get (dashboards ?w) sample_key = Some sample_pending"
    by (simp add: sample_store_get)
  have h2: "DeletionTimestamp sample_pending = None" by (simp add: sample_pending_def)
  have h3: "DashboardId sample_pending = []" by (simp add: sample_pending_def)
  have h4: "get_fault ?e = None" by (simp add: sample_env_def)
  have h5: "\<not> new_request_err ?e ''POST'' (BaseUrl (load_config ?e ?w) @ ''/api/custom-dashboard'')"
    by (simp add: sample_env_def)
  have h6: "client_do ?e (create_request (load_config ?e ?w) sample_pending) = Response ?resp"
    by (simp add: sample_env_def answer_created_def)
  have h7: "status_update_fault ?e = Some Conflict" by simp
  have h8: "sample_pending\<lparr>DashboardId := ''d1'', DashboardTitle := ''X''\<rparr> =
     sample_pending\<lparr>DashboardId := Id_resp (json_unmarshal ?e (BodyBytes ?resp)),
       DashboardTitle := Title_resp (json_unmarshal ?e (BodyBytes ?resp))\<rparr>"
    by (simp add: sample_env_def sample_unmarshal_def)
  show ?thesis
    using Reconcile_status_write_error [OF h1 h2 h3 h4 h5 h6 h7 h8] cfg
    by (simp add: sample_world_def)
qed

text \<open>
  C10. Whatever the collaborators answer, an execution leaves the ConfigMaps and the objects of
  other identities alone; every object it hands to a store write, and the object the store holds
  afterwards, equals the object loaded except for \<open>DashboardId\<close>, \<open>DashboardTitle\<close> and
  the finalizers: identity, \<open>Spec.Config\<close> and the deletion timestamp are unchanged.
\<close>

theorem Reconcile_frame:
  "configmaps (snd (Reconcile e req w)) = configmaps w
   \<and> (\<forall>k. k \<noteq> req \<longrightarrow>
         store_get (dashboards (snd (Reconcile e req w))) k = store_get (dashboards w) k)
   \<and> (\<forall>d'. store_get (dashboards (snd (Reconcile e req w))) req = Some d' \<longrightarrow>
         (\<exists>d. store_get (dashboards w) req = Some d
              \<and> same_outside_status_and_finalizers d d'))
   \<and> (\<forall>ev \<in> set (new_events w (snd (Reconcile e req w))). \<forall>d'. written ev = Some d' \<longrightarrow>
         (\<exists>d. store_get (dashboards w) req = Some d
              \<and> same_outside_status_and_finalizers d d'))"
proof (cases "get_fault e \<noteq> None \<or> store_get (dashboards w) req = None")
  case True
  then have "snd (Reconcile e req w) = w" by (rule Reconcile_not_loaded)
  then show ?thesis by simp
next
  case False
  then obtain d where nf: "get_fault e = None" and st: "store_get (dashboards w) req = Some d"
    by auto
  have id: "ident d = req" using st by (rule store_get_ident)
  show ?thesis
  proof (cases "DeletionTimestamp d \<noteq> None")
    case True
    show ?thesis
      using st id
      by (simp add: Reconcile_delete_branch [OF nf st True refl refl] new_events_def
          store_get_put_eq store_get_remove_eq split: http_outcome.split option.split)
  next
    case no_deletion: False
    show ?thesis
    proof (cases "DashboardId d = []")
      case False
      have "Reconcile e req w = (Returned None, w)"
        using st False no_deletion nf by (simp add: Reconcile_provisioned)
      then show ?thesis using st by simp
    next
      case True
      have nd: "DeletionTimestamp d = None" using no_deletion by simp
      show ?thesis
        using st id
        by (simp add: Reconcile_create_branch [OF nf st nd True refl] new_events_def Let_def
            store_get_put_eq split: http_outcome.split option.split)
    qed
  qed
qed

theorem Reconcile_frame_witness:
  "store_get (dashboards (snd (Reconcile (sample_env answer_created) sample_key
       (sample_world [sample_pending])))) sample_key = Some sample_provisioned
   \<and> same_outside_status_and_finalizers sample_pending sample_provisioned
   \<and> Config sample_provisioned = Config sample_pending"
proof -
  let ?w = "sample_world [sample_pending]"
  have h1: "store_get (dashboards ?w) sample_key = Some sample_pending"
    by (simp add: sample_store_get)
  have h2: "store_get (dashboards (snd (Reconcile (sample_env answer_created) sample_key ?w)))
              sample_key = Some sample_provisioned"
    by code_simp
  have "\<exists>d. store_get (dashboards ?w) sample_key = Some d
            \<and> same_outside_status_and_finalizers d sample_provisioned"
    using Reconcile_frame [of "sample_env answer_created" sample_key ?w] h2 by blast
  then have same: "same_outside_status_and_finalizers sample_pending sample_provisioned"
    using h1 by simp
  then have "Config sample_provisioned = Config sample_pending"
    by (simp add: sample_provisioned_def)
  then show ?thesis using h2 same by simp
qed

end
